theory Spec2Isabelle
  imports Complex_Main
begin

section \<open>The compliance query client (src/answerer.py)\<close>

text \<open>
  The query pipeline of \<^verbatim>\<open>answerer.py\<close>: \<^verbatim>\<open>retrieve_context\<close>,
  \<^verbatim>\<open>build_context_string\<close>, \<^verbatim>\<open>extract_sources\<close>,
  \<^verbatim>\<open>generate_compliance_response\<close> and \<^verbatim>\<open>get_compliance_answer\<close>.
  The vector store and the language model are reached through library calls; the outcome
  of each such call (a returned value or a raised exception) is an input of the model.
  Python strings are \<open>string\<close>s holding their UTF-8 encoding: concatenation and
  \<^verbatim>\<open>str.join\<close> commute with the encoding, and the pipeline does nothing else with text.
\<close>

subsection \<open>Values decoded from JSON\<close>

text \<open>
  What \<^verbatim>\<open>response.json()\<close> can return. An object is the list of its items in
  insertion order; the decoder leaves no key twice. A float stands for the rational it
  denotes (the pipeline never computes with one).
\<close>

datatype json =
    JNull
  | JBool bool
  | JInt int
  | JFloat rat
  | JStr string
  | JList "json list"
  | JDict "(string \<times> json) list"

fun type_name :: "json \<Rightarrow> string" where
  "type_name JNull = ''NoneType''"
| "type_name (JBool _) = ''bool''"
| "type_name (JInt _) = ''int''"
| "type_name (JFloat _) = ''float''"
| "type_name (JStr _) = ''str''"
| "type_name (JList _) = ''list''"
| "type_name (JDict _) = ''dict''"

subsection \<open>Exceptions\<close>

text \<open>
  The exception classes that the except clauses of the pipeline tell apart, and those
  the library calls raise. \<open>Requests_\<close> classes are those of \<^verbatim>\<open>requests.exceptions\<close>;
  \<open>Builtin_ConnectionError\<close> is Python's own \<^verbatim>\<open>ConnectionError\<close>, which the
  module raises itself and which is unrelated to the class of the same name in
  \<^verbatim>\<open>requests\<close>. \<open>Requests_RequestException\<close> stands for the remaining request
  failures (\<^verbatim>\<open>TooManyRedirects\<close>, \<^verbatim>\<open>ChunkedEncodingError\<close>, ...), \<open>Groq_APIError\<close>
  for the failures of the Groq client, \<open>Other_Exception\<close> for any other subclass of
  \<^verbatim>\<open>Exception\<close>. Interpreter-level events that are not \<^verbatim>\<open>Exception\<close>s
  (\<^verbatim>\<open>KeyboardInterrupt\<close>, \<^verbatim>\<open>SystemExit\<close>) are outside the model.
\<close>

datatype exn_class =
    ValueError
  | Builtin_ConnectionError
  | KeyError
  | TypeError
  | IndexError
  | Requests_RequestException
  | Requests_ConnectionError
  | Requests_Timeout
  | Requests_ConnectTimeout
  | Requests_ReadTimeout
  | Requests_HTTPError
  | Requests_JSONDecodeError
  | Groq_APIError
  | Other_Exception

text \<open>
  An exception is its class and \<^verbatim>\<open>str(e)\<close>. For a \<open>TypeError\<close> raised by the
  interpreter the string only names the type of the offending value: the wording differs
  between interpreter versions, and no such error is ever caught by the pipeline.
\<close>

datatype py_exn = Exn (cls: exn_class) (msg: string)

text \<open>
  The class itself followed by the modelled classes it inherits from. In
  \<^verbatim>\<open>requests.exceptions\<close>: \<^verbatim>\<open>class ConnectTimeout(ConnectionError, Timeout)\<close>,
  \<^verbatim>\<open>class ReadTimeout(Timeout)\<close>, and
  \<^verbatim>\<open>class JSONDecodeError(InvalidJSONError, json.JSONDecodeError)\<close>, the latter a
  \<^verbatim>\<open>ValueError\<close>.
\<close>

fun ancestry :: "exn_class \<Rightarrow> exn_class list" where
  "ancestry Requests_ConnectionError = [Requests_ConnectionError, Requests_RequestException]"
| "ancestry Requests_Timeout = [Requests_Timeout, Requests_RequestException]"
| "ancestry Requests_ConnectTimeout =
     [Requests_ConnectTimeout, Requests_ConnectionError, Requests_Timeout, Requests_RequestException]"
| "ancestry Requests_ReadTimeout = [Requests_ReadTimeout, Requests_Timeout, Requests_RequestException]"
| "ancestry Requests_HTTPError = [Requests_HTTPError, Requests_RequestException]"
| "ancestry Requests_JSONDecodeError =
     [Requests_JSONDecodeError, Requests_RequestException, ValueError]"
| "ancestry c = [c]"

definition isinstance :: "py_exn \<Rightarrow> exn_class \<Rightarrow> bool" where
  "isinstance e c = (c \<in> set (ancestry (cls e)))"

subsection \<open>Configuration and the outside world\<close>

record config =
  VECTOR_STORE_URL :: string
  TOP_K :: int

definition GROQ_MODEL :: string where
  "GROQ_MODEL = ''llama-3.3-70b-versatile''"

definition LLM_TEMPERATURE :: rat where
  "LLM_TEMPERATURE = 1 / 10"

definition SYSTEM_PROMPT :: string where
  "SYSTEM_PROMPT =
     ''You are a Senior Financial Audit & Compliance Officer with deep expertise '' @
     ''in regulatory frameworks (Basel III/IV, SEC, GDPR, SEBI, FINRA). '' @
     ''Your role is to analyze provided regulatory context and answer compliance '' @
     ''questions with precision and professionalism.\<newline>\<newline>'' @
     ''Guidelines:\<newline>'' @
     ''- Base all answers strictly on the provided context. Do not speculate.\<newline>'' @
     ''- Bold key thresholds, percentages, and deadlines using **markdown**.\<newline>'' @
     ''- If the context is insufficient to answer, state this clearly.\<newline>'' @
     ''- Cite specific document sections or regulation numbers where visible.\<newline>'' @
     ''- Flag any contradictions or ambiguities between source documents.\<newline>'' @
     ''- Use formal, jurisdiction-appropriate language throughout.''"

text \<open>The arguments of \<^verbatim>\<open>requests.post(VECTOR_STORE_URL, json=payload, timeout=10)\<close>.\<close>

record http_request =
  url :: string
  json_payload :: json
  timeout :: nat

text \<open>
  The response object, as far as the pipeline uses it: the status code, the text that
  \<^verbatim>\<open>raise_for_status()\<close> composes from the status line and the URL when it raises,
  and what \<^verbatim>\<open>json()\<close> returns or raises.
\<close>

record response =
  status_code :: nat
  http_error_msg :: string
  json_result :: "py_exn + json"

text \<open>
  \<^verbatim>\<open>Response.raise_for_status\<close> of \<^verbatim>\<open>requests\<close>: it raises \<^verbatim>\<open>HTTPError\<close> for a
  client error (400 to 499) or a server error (500 to 599) and returns for every other
  status code (\<open>None\<close> here).
\<close>

definition raise_for_status :: "response \<Rightarrow> py_exn option" where
  "raise_for_status response =
     (if 400 \<le> status_code response \<and> status_code response < 600
      then Some (Exn Requests_HTTPError (http_error_msg response))
      else None)"

text \<open>The keyword arguments of \<^verbatim>\<open>client.chat.completions.create\<close>.\<close>

record chat_request =
  model :: string
  temperature :: rat
  messages :: "json list"

text \<open>The completion object: \<^verbatim>\<open>completion.choices[0].message.content\<close>.\<close>

record message =
  content :: string

record choice =
  message :: message

record completion =
  choices :: "choice list"

text \<open>
  The environment: the outcome of the two remote calls for each request, Python's
  \<^verbatim>\<open>str()\<close> on a decoded JSON value, and the position \<open>set_slot members x\<close> of
  the member \<open>x\<close> in the hash table of a set built by adding \<open>members\<close> in that order
  (iterating a set visits its table slot by slot).
\<close>

record env =
  requests_post :: "http_request \<Rightarrow> py_exn + response"
  chat_completions_create :: "chat_request \<Rightarrow> py_exn + completion"
  py_str :: "json \<Rightarrow> string"
  set_slot :: "json list \<Rightarrow> json \<Rightarrow> nat"

text \<open>The effects: the requests sent, in order, and the records logged at level ERROR.\<close>

record world =
  http_log :: "http_request list"
  llm_log :: "chat_request list"
  error_log :: "string list"

subsection \<open>Subscripting, joining and hashing\<close>

text \<open>
  \<^verbatim>\<open>v[key]\<close> for a string key: a dict without the key raises \<^verbatim>\<open>KeyError\<close>, whose
  \<^verbatim>\<open>str\<close> is the key between quotes; any other value raises \<^verbatim>\<open>TypeError\<close>.
\<close>

fun getitem :: "json \<Rightarrow> string \<Rightarrow> py_exn + json" where
  "getitem (JDict items) key =
     (case map_of items key of
        None \<Rightarrow> Inl (Exn KeyError ([CHR 0x27] @ key @ [CHR 0x27]))
      | Some v \<Rightarrow> Inr v)"
| "getitem v key = Inl (Exn TypeError (type_name v))"

text \<open>
  \<^verbatim>\<open>sep.join(chunk[key] for chunk in chunks)\<close>: \<^verbatim>\<open>join\<close> first runs the generator
  to its end (\<open>subscript_all\<close>), then refuses the first item that is no \<^verbatim>\<open>str\<close>
  (\<open>str_items\<close>), then concatenates (\<open>join_strings\<close>).
\<close>

fun subscript_all :: "json list \<Rightarrow> string \<Rightarrow> py_exn + json list" where
  "subscript_all [] key = Inr []"
| "subscript_all (chunk # chunks) key =
     (case getitem chunk key of
        Inl e \<Rightarrow> Inl e
      | Inr v \<Rightarrow> (case subscript_all chunks key of Inl e \<Rightarrow> Inl e | Inr vs \<Rightarrow> Inr (v # vs)))"

fun str_items :: "json list \<Rightarrow> py_exn + string list" where
  "str_items [] = Inr []"
| "str_items (JStr s # vs) = (case str_items vs of Inl e \<Rightarrow> Inl e | Inr ss \<Rightarrow> Inr (s # ss))"
| "str_items (v # vs) = Inl (Exn TypeError (type_name v))"

fun join_strings :: "string \<Rightarrow> string list \<Rightarrow> string" where
  "join_strings sep [] = []"
| "join_strings sep [s] = s"
| "join_strings sep (s # t # ss) = s @ sep @ join_strings sep (t # ss)"

definition str_join :: "string \<Rightarrow> json list \<Rightarrow> py_exn + string" where
  "str_join sep items = (case str_items items of Inl e \<Rightarrow> Inl e | Inr ss \<Rightarrow> Inr (join_strings sep ss))"

text \<open>
  Membership in a Python set goes by hash and \<^verbatim>\<open>==\<close>: \<^verbatim>\<open>True == 1 == 1.0\<close>, a
  string equals only itself, lists and dicts are unhashable. \<open>hash_key\<close> maps the values
  that \<^verbatim>\<open>==\<close> identifies to one key and an unhashable value to \<open>None\<close>.
\<close>

datatype hkey = KNone | KNum rat | KStr string

fun hash_key :: "json \<Rightarrow> hkey option" where
  "hash_key JNull = Some KNone"
| "hash_key (JBool b) = Some (KNum (if b then 1 else 0))"
| "hash_key (JInt i) = Some (KNum (of_int i))"
| "hash_key (JFloat r) = Some (KNum r)"
| "hash_key (JStr s) = Some (KStr s)"
| "hash_key (JList _) = None"
| "hash_key (JDict _) = None"

text \<open>\<^verbatim>\<open>set.add\<close>, the set given by its members in the order they were added.\<close>

definition set_add :: "json list \<Rightarrow> json \<Rightarrow> py_exn + json list" where
  "set_add members v =
     (case hash_key v of
        None \<Rightarrow> Inl (Exn TypeError (type_name v))
      | Some k \<Rightarrow> Inr (if Some k \<in> set (map hash_key members) then members else members @ [v]))"

subsection \<open>Core functions\<close>

text \<open>
  The body of the \<^verbatim>\<open>try\<close> block of \<^verbatim>\<open>retrieve_context\<close>:
  \<^verbatim>\<open>requests.post\<close>, \<^verbatim>\<open>response.raise_for_status()\<close>, \<^verbatim>\<open>response.json()\<close>.
\<close>

definition post_and_decode :: "env \<Rightarrow> http_request \<Rightarrow> py_exn + json" where
  "post_and_decode env req =
     (case requests_post env req of
        Inl e \<Rightarrow> Inl e
      | Inr response \<Rightarrow>
          (case raise_for_status response of
             Some e \<Rightarrow> Inl e
           | None \<Rightarrow> json_result response))"

definition retrieve_request :: "config \<Rightarrow> string \<Rightarrow> int \<Rightarrow> http_request" where
  "retrieve_request cfg question top_k =
     \<lparr>url = VECTOR_STORE_URL cfg,
      json_payload = JDict [(''query'', JStr question), (''k'', JInt top_k)],
      timeout = 10\<rparr>"

definition retrieve_context ::
  "config \<Rightarrow> env \<Rightarrow> string \<Rightarrow> int \<Rightarrow> world \<Rightarrow> (py_exn + json list) \<times> world" where
  "retrieve_context cfg env question top_k w =
     (let req = retrieve_request cfg question top_k;
          w1 = w\<lparr>http_log := http_log w @ [req]\<rparr>
      in case post_and_decode env req of
           Inl e \<Rightarrow>
             if isinstance e Requests_ConnectionError then
               (Inl (Exn Builtin_ConnectionError
                  (''Cannot reach VectorStoreServer at '' @ VECTOR_STORE_URL cfg @ ''. '' @
                   ''Ensure main.py is running.'')), w1)
             else if isinstance e Requests_Timeout then
               (Inl (Exn Builtin_ConnectionError
                  ''VectorStoreServer request timed out after 10 seconds.''), w1)
             else if isinstance e Requests_HTTPError then
               (Inl (Exn ValueError (''VectorStoreServer returned an error: '' @ msg e)), w1)
             else (Inl e, w1)
         | Inr results \<Rightarrow>
             (case results of
                JList chunks \<Rightarrow> (Inr chunks, w1)
              | _ \<Rightarrow>
                (Inl (Exn ValueError
                   (''Unexpected response format from vector store: '' @ py_str env results)), w1)))"

definition build_context_string :: "json list \<Rightarrow> py_exn + string" where
  "build_context_string chunks =
     (case subscript_all chunks ''text'' of
        Inl e \<Rightarrow> Inl e
      | Inr items \<Rightarrow> str_join ''\<newline>\<newline>'' items)"

text \<open>
  The set comprehension of \<^verbatim>\<open>extract_sources\<close>: chunk by chunk,
  \<^verbatim>\<open>chunk["metadata"]["name"]\<close> is evaluated and added to the set.
\<close>

definition chunk_name :: "json \<Rightarrow> py_exn + json" where
  "chunk_name chunk =
     (case getitem chunk ''metadata'' of Inl e \<Rightarrow> Inl e | Inr metadata \<Rightarrow> getitem metadata ''name'')"

fun source_set :: "json list \<Rightarrow> json list \<Rightarrow> py_exn + json list" where
  "source_set [] members = Inr members"
| "source_set (chunk # chunks) members =
     (case chunk_name chunk of
        Inl e \<Rightarrow> Inl e
      | Inr name \<Rightarrow>
          (case set_add members name of
             Inl e \<Rightarrow> Inl e
           | Inr members' \<Rightarrow> source_set chunks members'))"

definition extract_sources :: "env \<Rightarrow> json list \<Rightarrow> py_exn + json list" where
  "extract_sources env chunks =
     (case source_set chunks [] of
        Inl e \<Rightarrow> Inl e
      | Inr members \<Rightarrow> Inr (sort_key (set_slot env members) members))"

definition chat_request_for :: "string \<Rightarrow> string \<Rightarrow> chat_request" where
  "chat_request_for question context =
     \<lparr>model = GROQ_MODEL,
      temperature = LLM_TEMPERATURE,
      messages =
        [JDict [(''role'', JStr ''system''), (''content'', JStr SYSTEM_PROMPT)],
         JDict [(''role'', JStr ''user''),
                (''content'', JStr (''RETRIEVED CONTEXT:\<newline>'' @ context @ ''\<newline>\<newline>'' @
                                    ''COMPLIANCE QUESTION: '' @ question))]]\<rparr>"

definition generate_compliance_response ::
  "env \<Rightarrow> string \<Rightarrow> string \<Rightarrow> world \<Rightarrow> (py_exn + string) \<times> world" where
  "generate_compliance_response env question context w =
     (let req = chat_request_for question context;
          w1 = w\<lparr>llm_log := llm_log w @ [req]\<rparr>
      in case chat_completions_create env req of
           Inl e \<Rightarrow> (Inl e, w1)
         | Inr completion \<Rightarrow>
             (case choices completion of
                [] \<Rightarrow> (Inl (Exn IndexError ''list index out of range''), w1)
              | c # _ \<Rightarrow> (Inr (content (message c)), w1)))"

text \<open>
  \<^verbatim>\<open>get_compliance_answer\<close>. \<open>Inl e\<close> is an exception that leaves the function;
  \<open>Inr (chunks, answer, sources)\<close> is the returned tuple, \<open>chunks = None\<close> being Python's
  \<^verbatim>\<open>None\<close>.
\<close>

definition log_error :: "string \<Rightarrow> world \<Rightarrow> world" where
  "log_error record w = w\<lparr>error_log := error_log w @ [record]\<rparr>"

definition get_compliance_answer ::
  "config \<Rightarrow> env \<Rightarrow> string \<Rightarrow> world \<Rightarrow>
     (py_exn + (json list option \<times> string \<times> json list)) \<times> world" where
  "get_compliance_answer cfg env question w =
     (case retrieve_context cfg env question (TOP_K cfg) w of
        (Inl e, w1) \<Rightarrow>
          if isinstance e Builtin_ConnectionError \<or> isinstance e ValueError then
            (Inr (None, msg e, []), log_error (''Retrieval failed: '' @ msg e) w1)
          else (Inl e, w1)
      | (Inr chunks, w1) \<Rightarrow>
          (case build_context_string chunks of
             Inl e \<Rightarrow> (Inl e, w1)
           | Inr context \<Rightarrow>
               (case extract_sources env chunks of
                  Inl e \<Rightarrow> (Inl e, w1)
                | Inr sources \<Rightarrow>
                    (case generate_compliance_response env question context w1 of
                       (Inl e, w2) \<Rightarrow>
                         (Inr (Some chunks, ''LLM error: '' @ msg e, sources),
                          log_error (''LLM generation failed: '' @ msg e) w2)
                     | (Inr answer, w2) \<Rightarrow> (Inr (Some chunks, answer, sources), w2)))))"

subsection \<open>Concrete configurations and environments\<close>

text \<open>The defaults of the module when the process environment sets nothing.\<close>

definition default_config :: config where
  "default_config = \<lparr>VECTOR_STORE_URL = ''http://127.0.0.1:8000/v1/retrieve'', TOP_K = 3\<rparr>"

definition initial_world :: world where
  "initial_world = \<lparr>http_log = [], llm_log = [], error_log = []\<rparr>"

text \<open>\<^verbatim>\<open>str()\<close> on the values whose rendering needs no quoting or number formatting.\<close>

fun plain_str :: "json \<Rightarrow> string" where
  "plain_str JNull = ''None''"
| "plain_str (JBool b) = (if b then ''True'' else ''False'')"
| "plain_str (JStr s) = s"
| "plain_str (JList []) = ''[]''"
| "plain_str (JDict []) = ''{}''"
| "plain_str _ = ''...''"

text \<open>
  An environment in which every retrieval request has the outcome \<open>post\<close> and every
  completion request the outcome \<open>llm\<close>.
\<close>

definition scripted_env :: "(py_exn + response) \<Rightarrow> (py_exn + completion) \<Rightarrow> env" where
  "scripted_env post llm =
     \<lparr>requests_post = (\<lambda>_. post),
      chat_completions_create = (\<lambda>_. llm),
      py_str = plain_str,
      set_slot = (\<lambda>_ _. 0)\<rparr>"

definition ok_response :: "json \<Rightarrow> py_exn + response" where
  "ok_response body = Inr \<lparr>status_code = 200, http_error_msg = [], json_result = Inr body\<rparr>"

definition ok_completion :: "string \<Rightarrow> py_exn + completion" where
  "ok_completion text = Inr \<lparr>choices = [\<lparr>message = \<lparr>content = text\<rparr>\<rparr>]\<rparr>"

definition basel_chunk :: json where
  "basel_chunk =
     JDict [(''text'', JStr ''Banks must maintain a minimum CET1 ratio of 4.5%.''),
            (''dist'', JFloat (1 / 10)),
            (''metadata'', JDict [(''name'', JStr ''basel_iii.pdf'')])]"

definition basel_question :: string where
  "basel_question = ''What is the minimum capital adequacy ratio under Basel III?''"

subsection \<open>Predicates used to state the properties\<close>

text \<open>\<open>occurs_in w text\<close>: the word \<open>w\<close> occurs in \<open>text\<close> as a contiguous piece.\<close>

fun occurs_in :: "'a list \<Rightarrow> 'a list \<Rightarrow> bool" where
  "occurs_in w [] = (w = [])"
| "occurs_in w (c # cs) = (take (length w) (c # cs) = w \<or> occurs_in w cs)"

text \<open>
  The four failures that \<^verbatim>\<open>retrieve_context\<close> reports itself, by what the three
  statements of its \<^verbatim>\<open>try\<close> block did: raised a \<^verbatim>\<open>ConnectionError\<close> of
  \<^verbatim>\<open>requests\<close> (service unreachable), a \<^verbatim>\<open>Timeout\<close>, an \<^verbatim>\<open>HTTPError\<close> (which
  \<^verbatim>\<open>raise_for_status\<close> raises for the status codes 400 to 599 and for no other), or
  yielded a decoded payload that is no list.
\<close>

fun reported_failure :: "py_exn + json \<Rightarrow> bool" where
  "reported_failure (Inl e) =
     (isinstance e Requests_ConnectionError \<or> isinstance e Requests_Timeout \<or>
      isinstance e Requests_HTTPError)"
| "reported_failure (Inr (JList _)) = False"
| "reported_failure (Inr _) = True"

text \<open>The request was answered, with a client or server error status.\<close>

fun error_status :: "py_exn + response \<Rightarrow> bool" where
  "error_status (Inl _) = False"
| "error_status (Inr response) = (400 \<le> status_code response \<and> status_code response < 600)"

text \<open>
  A chunk of the documented shape: a dict with a string under \<^verbatim>\<open>text\<close> and, under
  \<^verbatim>\<open>metadata\<close>, a dict with a string under \<^verbatim>\<open>name\<close>.
\<close>

definition chunk_shaped :: "json \<Rightarrow> bool" where
  "chunk_shaped chunk =
     (case getitem chunk ''text'' of
        Inr (JStr _) \<Rightarrow> (case chunk_name chunk of Inr (JStr _) \<Rightarrow> True | _ \<Rightarrow> False)
      | _ \<Rightarrow> False)"

text \<open>
  The outcomes of the retrieval request under which the orchestrator returns: an
  exception that one of the except clauses on the way catches, a payload that is no list,
  or a list of chunks of the documented shape.
\<close>

fun orderly_retrieval :: "py_exn + json \<Rightarrow> bool" where
  "orderly_retrieval (Inl e) =
     (isinstance e Requests_ConnectionError \<or> isinstance e Requests_Timeout \<or>
      isinstance e Requests_HTTPError \<or> isinstance e Builtin_ConnectionError \<or>
      isinstance e ValueError)"
| "orderly_retrieval (Inr (JList chunks)) = list_all chunk_shaped chunks"
| "orderly_retrieval (Inr _) = True"

section \<open>Properties\<close>

subsection \<open>The branches of the pipeline\<close>

lemma isinstance_Exn: "isinstance (Exn c m) c' = (c' \<in> set (ancestry c))"
  by (simp add: isinstance_def)

lemma raise_for_status_code [simp]:
  "raise_for_status response =
     (if 400 \<le> status_code response \<and> status_code response < 600
      then Some (Exn Requests_HTTPError (http_error_msg response))
      else None)"
  by (fact raise_for_status_def)

lemma error_status_raises:
  assumes "error_status (requests_post env req)"
  shows "\<exists>e. post_and_decode env req = Inl e \<and> isinstance e Requests_HTTPError"
proof (cases "requests_post env req")
  case (Inl e)
  with assms show ?thesis by simp
next
  case (Inr response)
  with assms show ?thesis
    by (simp add: post_and_decode_def isinstance_Exn)
qed

lemma retrieve_context_world:
  "snd (retrieve_context cfg env question k w) =
     w\<lparr>http_log := http_log w @ [retrieve_request cfg question k]\<rparr>"
  by (simp add: retrieve_context_def Let_def split: sum.splits json.splits)

lemma retrieve_context_unreachable:
  assumes "post_and_decode env (retrieve_request cfg question k) = Inl e"
    and "isinstance e Requests_ConnectionError"
  shows "fst (retrieve_context cfg env question k w) =
     Inl (Exn Builtin_ConnectionError
       (''Cannot reach VectorStoreServer at '' @ VECTOR_STORE_URL cfg @
        ''. Ensure main.py is running.''))"
  using assms by (simp add: retrieve_context_def Let_def)

lemma retrieve_context_timeout:
  assumes "post_and_decode env (retrieve_request cfg question k) = Inl e"
    and "\<not> isinstance e Requests_ConnectionError" and "isinstance e Requests_Timeout"
  shows "fst (retrieve_context cfg env question k w) =
     Inl (Exn Builtin_ConnectionError ''VectorStoreServer request timed out after 10 seconds.'')"
  using assms by (simp add: retrieve_context_def Let_def)

lemma retrieve_context_status:
  assumes "post_and_decode env (retrieve_request cfg question k) = Inl e"
    and "\<not> isinstance e Requests_ConnectionError" and "\<not> isinstance e Requests_Timeout"
    and "isinstance e Requests_HTTPError"
  shows "fst (retrieve_context cfg env question k w) =
     Inl (Exn ValueError (''VectorStoreServer returned an error: '' @ msg e))"
  using assms by (simp add: retrieve_context_def Let_def)

lemma retrieve_context_propagates:
  assumes "post_and_decode env (retrieve_request cfg question k) = Inl e"
    and "\<not> isinstance e Requests_ConnectionError" and "\<not> isinstance e Requests_Timeout"
    and "\<not> isinstance e Requests_HTTPError"
  shows "fst (retrieve_context cfg env question k w) = Inl e"
  using assms by (simp add: retrieve_context_def Let_def)

lemma retrieve_context_not_list:
  assumes "post_and_decode env (retrieve_request cfg question k) = Inr v"
    and "\<And>chunks. v \<noteq> JList chunks"
  shows "fst (retrieve_context cfg env question k w) =
     Inl (Exn ValueError (''Unexpected response format from vector store: '' @ py_str env v))"
  using assms by (cases v) (auto simp add: retrieve_context_def Let_def)

lemma retrieve_context_list:
  assumes "post_and_decode env (retrieve_request cfg question k) = Inr (JList chunks)"
  shows "fst (retrieve_context cfg env question k w) = Inr chunks"
  using assms by (simp add: retrieve_context_def Let_def)

lemma answer_retrieval_caught:
  assumes "retrieve_context cfg env question (TOP_K cfg) w = (Inl e, w1)"
    and "isinstance e Builtin_ConnectionError \<or> isinstance e ValueError"
  shows "get_compliance_answer cfg env question w =
     (Inr (None, msg e, []), log_error (''Retrieval failed: '' @ msg e) w1)"
  using assms by (simp add: get_compliance_answer_def)

lemma answer_retrieval_uncaught:
  assumes "retrieve_context cfg env question (TOP_K cfg) w = (Inl e, w1)"
    and "\<not> isinstance e Builtin_ConnectionError" and "\<not> isinstance e ValueError"
  shows "get_compliance_answer cfg env question w = (Inl e, w1)"
  using assms by (simp add: get_compliance_answer_def)

lemma answer_generation_raises:
  assumes "retrieve_context cfg env question (TOP_K cfg) w = (Inr chunks, w1)"
    and "build_context_string chunks = Inr context"
    and "extract_sources env chunks = Inr sources"
    and "generate_compliance_response env question context w1 = (Inl e, w2)"
  shows "get_compliance_answer cfg env question w =
     (Inr (Some chunks, ''LLM error: '' @ msg e, sources),
      log_error (''LLM generation failed: '' @ msg e) w2)"
  using assms by (simp add: get_compliance_answer_def)

lemma answer_generation_returns:
  assumes "retrieve_context cfg env question (TOP_K cfg) w = (Inr chunks, w1)"
    and "build_context_string chunks = Inr context"
    and "extract_sources env chunks = Inr sources"
    and "generate_compliance_response env question context w1 = (Inr answer, w2)"
  shows "get_compliance_answer cfg env question w = (Inr (Some chunks, answer, sources), w2)"
  using assms by (simp add: get_compliance_answer_def)

lemma generate_world:
  "llm_log (snd (generate_compliance_response env question context w)) =
     llm_log w @ [chat_request_for question context]"
  by (simp add: generate_compliance_response_def Let_def split: sum.splits list.splits)

lemma occurs_in_suffix: "occurs_in w (p @ w)"
  by (induction p) (cases w; simp)+

subsection \<open>Retrieval failures\<close>

text \<open>
  Claim C2, as stated, fails for a status that is neither 2xx nor an error status: for
  status 300 \<^verbatim>\<open>raise_for_status\<close> returns, and with a list in the body the run is a
  success, with chunks, a generated answer and sources.
\<close>

theorem status_300_counterexample:
  "raise_for_status
       \<lparr>status_code = 300, http_error_msg = [], json_result = Inr (JList [basel_chunk])\<rparr> = None \<and>
   fst (get_compliance_answer default_config
       (scripted_env
          (Inr \<lparr>status_code = 300, http_error_msg = [], json_result = Inr (JList [basel_chunk])\<rparr>)
          (ok_completion ''The minimum CET1 ratio is **4.5%**.''))
       basel_question initial_world) =
     Inr (Some [basel_chunk], ''The minimum CET1 ratio is **4.5%**.'', [JStr ''basel_iii.pdf'']) \<and>
   llm_log (snd (get_compliance_answer default_config
       (scripted_env
          (Inr \<lparr>status_code = 300, http_error_msg = [], json_result = Inr (JList [basel_chunk])\<rparr>)
          (ok_completion ''The minimum CET1 ratio is **4.5%**.''))
       basel_question initial_world)) =
     [chat_request_for basel_question ''Banks must maintain a minimum CET1 ratio of 4.5%.'']"
  by (simp add: get_compliance_answer_def retrieve_context_def post_and_decode_def
      scripted_env_def ok_completion_def build_context_string_def str_join_def
      extract_sources_def chunk_name_def set_add_def basel_chunk_def
      generate_compliance_response_def initial_world_def Let_def)

text \<open>
  Claim C2, amended. Whenever retrieval fails in one of the four ways that
  \<^verbatim>\<open>retrieve_context\<close> reports (service unreachable, timeout, an error status, that is
  a status code from 400 to 599, or a payload that is no list),
  \<^verbatim>\<open>get_compliance_answer\<close> returns exactly \<^verbatim>\<open>(None, str(e), [])\<close> for the error
  \<open>e\<close> that \<^verbatim>\<open>retrieve_context\<close> raised, and no completion request is sent.
\<close>

theorem retrieval_failure_result:
  assumes "reported_failure (post_and_decode env (retrieve_request cfg question (TOP_K cfg))) \<or>
           error_status (requests_post env (retrieve_request cfg question (TOP_K cfg)))"
  shows "\<exists>e w1. retrieve_context cfg env question (TOP_K cfg) w = (Inl e, w1) \<and>
           fst (get_compliance_answer cfg env question w) = Inr (None, msg e, []) \<and>
           llm_log (snd (get_compliance_answer cfg env question w)) = llm_log w"
proof -
  let ?req = "retrieve_request cfg question (TOP_K cfg)"
  obtain r w1 where rc: "retrieve_context cfg env question (TOP_K cfg) w = (r, w1)"
    by (cases "retrieve_context cfg env question (TOP_K cfg) w")
  have w1: "w1 = w\<lparr>http_log := http_log w @ [?req]\<rparr>"
    using retrieve_context_world [of cfg env question "TOP_K cfg" w] rc by simp
  have failure: "reported_failure (post_and_decode env ?req)"
  proof (cases "error_status (requests_post env ?req)")
    case True
    from error_status_raises [OF this] show ?thesis by auto
  next
    case False
    with assms show ?thesis by simp
  qed
  have "\<exists>e. r = Inl e \<and> (isinstance e Builtin_ConnectionError \<or> isinstance e ValueError)"
  proof (cases "post_and_decode env ?req")
    case (Inl e)
    consider (a) "isinstance e Requests_ConnectionError"
      | (b) "\<not> isinstance e Requests_ConnectionError" "isinstance e Requests_Timeout"
      | (c) "\<not> isinstance e Requests_ConnectionError" "\<not> isinstance e Requests_Timeout"
            "isinstance e Requests_HTTPError"
      using failure Inl by auto
    then show ?thesis
    proof cases
      case a
      from retrieve_context_unreachable [OF Inl a, of w] rc show ?thesis
        by (simp add: isinstance_Exn)
    next
      case b
      from retrieve_context_timeout [OF Inl b, of w] rc show ?thesis
        by (simp add: isinstance_Exn)
    next
      case c
      from retrieve_context_status [OF Inl c, of w] rc show ?thesis
        by (simp add: isinstance_Exn)
    qed
  next
    case (Inr v)
    with failure have "\<And>chunks. v \<noteq> JList chunks" by auto
    from retrieve_context_not_list [OF Inr this, of w] rc show ?thesis
      by (simp add: isinstance_Exn)
  qed
  then obtain e where e: "r = Inl e"
    and caught: "isinstance e Builtin_ConnectionError \<or> isinstance e ValueError" by blast
  from rc e have rc': "retrieve_context cfg env question (TOP_K cfg) w = (Inl e, w1)" by simp
  from answer_retrieval_caught [OF rc' caught] w1 rc' show ?thesis
    by (simp add: log_error_def)
qed

theorem retrieval_failure_result_witness:
  "error_status (requests_post
       (scripted_env
          (Inr \<lparr>status_code = 503, http_error_msg = ''503 Server Error: Service Unavailable'',
                json_result = Inr JNull\<rparr>) (ok_completion ''unused''))
       (retrieve_request default_config basel_question (TOP_K default_config))) \<and>
   fst (get_compliance_answer default_config
       (scripted_env
          (Inr \<lparr>status_code = 503, http_error_msg = ''503 Server Error: Service Unavailable'',
                json_result = Inr JNull\<rparr>) (ok_completion ''unused''))
       basel_question initial_world) =
     Inr (None, ''VectorStoreServer returned an error: 503 Server Error: Service Unavailable'', [])"
proof -
  let ?env = "scripted_env
          (Inr \<lparr>status_code = 503, http_error_msg = ''503 Server Error: Service Unavailable'',
                json_result = Inr JNull\<rparr>) (ok_completion ''unused'')"
  have h: "error_status (requests_post ?env
       (retrieve_request default_config basel_question (TOP_K default_config)))"
    by (simp add: scripted_env_def)
  have rc: "fst (retrieve_context default_config ?env basel_question (TOP_K default_config) initial_world)
      = Inl (Exn ValueError
          ''VectorStoreServer returned an error: 503 Server Error: Service Unavailable'')"
    by (simp add: retrieve_context_def post_and_decode_def scripted_env_def isinstance_Exn)
  from retrieval_failure_result [OF disjI2 [OF h], of initial_world] rc h show ?thesis
    by auto
qed

text \<open>
  Claim C7. When the retrieval service answers with a payload that is not a list,
  \<^verbatim>\<open>get_compliance_answer\<close> returns \<^verbatim>\<open>(None, message, [])\<close>, where the message
  ends with \<^verbatim>\<open>str(payload)\<close> and so contains the raw payload.
\<close>

theorem malformed_payload_result:
  assumes "post_and_decode env (retrieve_request cfg question (TOP_K cfg)) = Inr payload"
    and "\<forall>chunks. payload \<noteq> JList chunks"
  shows "fst (get_compliance_answer cfg env question w) =
           Inr (None, ''Unexpected response format from vector store: '' @ py_str env payload, []) \<and>
         occurs_in (py_str env payload)
           (''Unexpected response format from vector store: '' @ py_str env payload)"
proof -
  obtain r w1 where rc: "retrieve_context cfg env question (TOP_K cfg) w = (r, w1)"
    by (cases "retrieve_context cfg env question (TOP_K cfg) w")
  from assms(2) have "\<And>chunks. payload \<noteq> JList chunks" by simp
  from retrieve_context_not_list [OF assms(1) this, of w] rc
  have r: "r = Inl (Exn ValueError
      (''Unexpected response format from vector store: '' @ py_str env payload))" by simp
  have "isinstance (Exn ValueError
      (''Unexpected response format from vector store: '' @ py_str env payload)) ValueError"
    by (simp add: isinstance_Exn)
  with answer_retrieval_caught [of cfg env question w _ w1] rc r
  have "fst (get_compliance_answer cfg env question w) =
     Inr (None, ''Unexpected response format from vector store: '' @ py_str env payload, [])"
    by simp
  then show ?thesis using occurs_in_suffix by blast
qed

theorem malformed_payload_result_witness:
  "post_and_decode (scripted_env (ok_response (JStr ''Service starting'')) (ok_completion ''unused''))
       (retrieve_request default_config basel_question (TOP_K default_config)) =
     Inr (JStr ''Service starting'') \<and>
   fst (get_compliance_answer default_config
       (scripted_env (ok_response (JStr ''Service starting'')) (ok_completion ''unused''))
       basel_question initial_world) =
     Inr (None, ''Unexpected response format from vector store: Service starting'', [])"
proof -
  let ?env = "scripted_env (ok_response (JStr ''Service starting'')) (ok_completion ''unused'')"
  have h: "post_and_decode ?env
       (retrieve_request default_config basel_question (TOP_K default_config)) =
     Inr (JStr ''Service starting'')"
    by (simp add: post_and_decode_def scripted_env_def ok_response_def)
  have n: "\<forall>chunks. JStr ''Service starting'' \<noteq> JList chunks" by simp
  have s: "py_str ?env (JStr ''Service starting'') = ''Service starting''"
    by (simp add: scripted_env_def)
  from malformed_payload_result [OF h n, of initial_world] h s show ?thesis
    by simp
qed

text \<open>
  Claim C6, as stated, fails for a timeout of the connection phase: \<^verbatim>\<open>ConnectTimeout\<close>
  is a \<^verbatim>\<open>Timeout\<close> and also a \<^verbatim>\<open>requests.exceptions.ConnectionError\<close>, the
  clause for the latter comes first, and its message says nothing of a timeout.
\<close>

theorem connect_timeout_counterexample:
  "isinstance (Exn Requests_ConnectTimeout ''connect timeout=10'') Requests_Timeout \<and>
   fst (get_compliance_answer default_config
       (scripted_env (Inl (Exn Requests_ConnectTimeout ''connect timeout=10'')) (ok_completion ''unused''))
       basel_question initial_world) =
     Inr (None, ''Cannot reach VectorStoreServer at http://127.0.0.1:8000/v1/retrieve. Ensure main.py is running.'', []) \<and>
   \<not> occurs_in ''tim''
     ''Cannot reach VectorStoreServer at http://127.0.0.1:8000/v1/retrieve. Ensure main.py is running.'' \<and>
   \<not> occurs_in ''Tim''
     ''Cannot reach VectorStoreServer at http://127.0.0.1:8000/v1/retrieve. Ensure main.py is running.''"
  by (simp add: get_compliance_answer_def retrieve_context_def post_and_decode_def
      retrieve_request_def scripted_env_def default_config_def isinstance_Exn)

text \<open>
  Claim C6, amended. When the retrieval request raises a \<^verbatim>\<open>Timeout\<close> that is not
  also a \<^verbatim>\<open>requests.exceptions.ConnectionError\<close> (the server accepted the connection
  and did not answer in time), \<^verbatim>\<open>get_compliance_answer\<close> returns
  \<^verbatim>\<open>(None, "VectorStoreServer request timed out after 10 seconds.", [])\<close>.
\<close>

theorem read_timeout_result:
  assumes "post_and_decode env (retrieve_request cfg question (TOP_K cfg)) = Inl e"
    and "isinstance e Requests_Timeout"
    and "\<not> isinstance e Requests_ConnectionError"
  shows "fst (get_compliance_answer cfg env question w) =
           Inr (None, ''VectorStoreServer request timed out after 10 seconds.'', []) \<and>
         occurs_in ''timed out'' ''VectorStoreServer request timed out after 10 seconds.''"
proof -
  obtain r w1 where rc: "retrieve_context cfg env question (TOP_K cfg) w = (r, w1)"
    by (cases "retrieve_context cfg env question (TOP_K cfg) w")
  from retrieve_context_timeout [OF assms(1) assms(3) assms(2), of w] rc
  have r: "r = Inl (Exn Builtin_ConnectionError
      ''VectorStoreServer request timed out after 10 seconds.'')" by simp
  have "isinstance (Exn Builtin_ConnectionError
      ''VectorStoreServer request timed out after 10 seconds.'') Builtin_ConnectionError"
    by (simp add: isinstance_Exn)
  with answer_retrieval_caught [of cfg env question w _ w1] rc r
  have "fst (get_compliance_answer cfg env question w) =
     Inr (None, ''VectorStoreServer request timed out after 10 seconds.'', [])"
    by simp
  moreover have "occurs_in ''timed out'' ''VectorStoreServer request timed out after 10 seconds.''"
    by simp
  ultimately show ?thesis by simp
qed

theorem read_timeout_result_witness:
  "post_and_decode (scripted_env (Inl (Exn Requests_ReadTimeout ''read timeout=10'')) (ok_completion ''unused''))
       (retrieve_request default_config basel_question (TOP_K default_config)) =
     Inl (Exn Requests_ReadTimeout ''read timeout=10'') \<and>
   isinstance (Exn Requests_ReadTimeout ''read timeout=10'') Requests_Timeout \<and>
   \<not> isinstance (Exn Requests_ReadTimeout ''read timeout=10'') Requests_ConnectionError \<and>
   fst (get_compliance_answer default_config
       (scripted_env (Inl (Exn Requests_ReadTimeout ''read timeout=10'')) (ok_completion ''unused''))
       basel_question initial_world) =
     Inr (None, ''VectorStoreServer request timed out after 10 seconds.'', [])"
proof -
  let ?env = "scripted_env (Inl (Exn Requests_ReadTimeout ''read timeout=10'')) (ok_completion ''unused'')"
  have h: "post_and_decode ?env
       (retrieve_request default_config basel_question (TOP_K default_config)) =
     Inl (Exn Requests_ReadTimeout ''read timeout=10'')"
    by (simp add: post_and_decode_def scripted_env_def)
  have t: "isinstance (Exn Requests_ReadTimeout ''read timeout=10'') Requests_Timeout"
    by (simp add: isinstance_Exn)
  have c: "\<not> isinstance (Exn Requests_ReadTimeout ''read timeout=10'') Requests_ConnectionError"
    by (simp add: isinstance_Exn)
  from read_timeout_result [OF h t c, of initial_world] h t c show ?thesis
    by simp
qed

subsection \<open>Generation failures\<close>

text \<open>
  Claim C3. Whenever retrieval succeeds and the call of
  \<^verbatim>\<open>generate_compliance_response\<close> on the assembled context raises,
  \<^verbatim>\<open>get_compliance_answer\<close> returns the retrieved chunks unchanged, an answer that
  starts with \<^verbatim>\<open>LLM error\<close>, and the sources extracted from those chunks.
\<close>

theorem generation_failure_result:
  assumes "retrieve_context cfg env question (TOP_K cfg) w = (Inr chunks, w1)"
    and "build_context_string chunks = Inr context"
    and "extract_sources env chunks = Inr sources"
    and "generate_compliance_response env question context w1 = (Inl e, w2)"
  shows "fst (get_compliance_answer cfg env question w) =
           Inr (Some chunks, ''LLM error'' @ '': '' @ msg e, sources)"
  using answer_generation_raises [OF assms] by simp

theorem generation_failure_result_witness:
  "fst (retrieve_context default_config
       (scripted_env (ok_response (JList [basel_chunk])) (Inl (Exn Groq_APIError ''Connection error.'')))
       basel_question (TOP_K default_config) initial_world) = Inr [basel_chunk] \<and>
   build_context_string [basel_chunk] = Inr ''Banks must maintain a minimum CET1 ratio of 4.5%.'' \<and>
   extract_sources
       (scripted_env (ok_response (JList [basel_chunk])) (Inl (Exn Groq_APIError ''Connection error.'')))
       [basel_chunk] = Inr [JStr ''basel_iii.pdf''] \<and>
   fst (get_compliance_answer default_config
       (scripted_env (ok_response (JList [basel_chunk])) (Inl (Exn Groq_APIError ''Connection error.'')))
       basel_question initial_world) =
     Inr (Some [basel_chunk], ''LLM error: Connection error.'', [JStr ''basel_iii.pdf''])"
proof -
  let ?env = "scripted_env (ok_response (JList [basel_chunk])) (Inl (Exn Groq_APIError ''Connection error.''))"
  let ?w1 = "snd (retrieve_context default_config ?env basel_question (TOP_K default_config) initial_world)"
  let ?ctx = "''Banks must maintain a minimum CET1 ratio of 4.5%.''"
  let ?w2 = "snd (generate_compliance_response ?env basel_question ?ctx ?w1)"
  have f: "fst (retrieve_context default_config ?env basel_question (TOP_K default_config) initial_world)
      = Inr [basel_chunk]"
    by (simp add: retrieve_context_def post_and_decode_def scripted_env_def ok_response_def)
  then have rc: "retrieve_context default_config ?env basel_question (TOP_K default_config) initial_world
      = (Inr [basel_chunk], ?w1)"
    by (simp add: prod_eq_iff)
  have b: "build_context_string [basel_chunk] = Inr ?ctx"
    by (simp add: build_context_string_def basel_chunk_def str_join_def)
  have x: "extract_sources ?env [basel_chunk] = Inr [JStr ''basel_iii.pdf'']"
    by (simp add: extract_sources_def basel_chunk_def chunk_name_def set_add_def)
  have "fst (generate_compliance_response ?env basel_question ?ctx ?w1)
      = Inl (Exn Groq_APIError ''Connection error.'')"
    by (simp add: generate_compliance_response_def scripted_env_def Let_def)
  then have g: "generate_compliance_response ?env basel_question ?ctx ?w1
      = (Inl (Exn Groq_APIError ''Connection error.''), ?w2)"
    by (simp add: prod_eq_iff)
  from generation_failure_result [OF rc b x g] f b x show ?thesis
    by simp
qed

lemma generate_propagates:
  assumes "chat_completions_create env (chat_request_for question context) = Inl e"
  shows "fst (generate_compliance_response env question context w) = Inl e"
  using assms by (simp add: generate_compliance_response_def Let_def)

text \<open>
  Claim C9, as stated, fails: \<^verbatim>\<open>generate_compliance_response\<close> has no handler of its
  own, so an error of the completion call leaves it as an exception.
\<close>

theorem generation_stage_raises_counterexample:
  "fst (generate_compliance_response
      (scripted_env (ok_response (JList [basel_chunk])) (Inl (Exn Groq_APIError ''Connection error.'')))
      basel_question ''Banks must maintain a minimum CET1 ratio of 4.5%.'' initial_world) =
     Inl (Exn Groq_APIError ''Connection error.'')"
  by (simp add: generate_compliance_response_def scripted_env_def Let_def)

text \<open>
  Claim C9, amended. An error raised by the completion call propagates out of
  \<^verbatim>\<open>generate_compliance_response\<close> unchanged; its caller
  \<^verbatim>\<open>get_compliance_answer\<close> catches it and returns the answer string
  \<^verbatim>\<open>"LLM error: " + str(e)\<close> together with the chunks and the sources.
\<close>

theorem generation_error_caught_by_orchestrator:
  assumes "chat_completions_create env (chat_request_for question context) = Inl e"
    and "retrieve_context cfg env question (TOP_K cfg) w = (Inr chunks, w1)"
    and "build_context_string chunks = Inr context"
    and "extract_sources env chunks = Inr sources"
  shows "fst (generate_compliance_response env question context w1) = Inl e \<and>
         fst (get_compliance_answer cfg env question w) =
           Inr (Some chunks, ''LLM error: '' @ msg e, sources)"
proof -
  have p: "fst (generate_compliance_response env question context w1) = Inl e"
    by (rule generate_propagates [OF assms(1)])
  then have "generate_compliance_response env question context w1 =
      (Inl e, snd (generate_compliance_response env question context w1))"
    by (simp add: prod_eq_iff)
  from answer_generation_raises [OF assms(2) assms(3) assms(4) this] p show ?thesis
    by simp
qed

theorem generation_error_caught_by_orchestrator_witness:
  "chat_completions_create
       (scripted_env (ok_response (JList [basel_chunk])) (Inl (Exn Groq_APIError ''Rate limit reached'')))
       (chat_request_for basel_question ''Banks must maintain a minimum CET1 ratio of 4.5%.'') =
     Inl (Exn Groq_APIError ''Rate limit reached'') \<and>
   fst (generate_compliance_response
       (scripted_env (ok_response (JList [basel_chunk])) (Inl (Exn Groq_APIError ''Rate limit reached'')))
       basel_question ''Banks must maintain a minimum CET1 ratio of 4.5%.''
       (snd (retrieve_context default_config
          (scripted_env (ok_response (JList [basel_chunk])) (Inl (Exn Groq_APIError ''Rate limit reached'')))
          basel_question (TOP_K default_config) initial_world))) =
     Inl (Exn Groq_APIError ''Rate limit reached'') \<and>
   fst (get_compliance_answer default_config
       (scripted_env (ok_response (JList [basel_chunk])) (Inl (Exn Groq_APIError ''Rate limit reached'')))
       basel_question initial_world) =
     Inr (Some [basel_chunk], ''LLM error: Rate limit reached'', [JStr ''basel_iii.pdf''])"
proof -
  let ?env = "scripted_env (ok_response (JList [basel_chunk])) (Inl (Exn Groq_APIError ''Rate limit reached''))"
  let ?w1 = "snd (retrieve_context default_config ?env basel_question (TOP_K default_config) initial_world)"
  let ?ctx = "''Banks must maintain a minimum CET1 ratio of 4.5%.''"
  have l: "chat_completions_create ?env (chat_request_for basel_question ?ctx) =
      Inl (Exn Groq_APIError ''Rate limit reached'')"
    by (simp add: scripted_env_def)
  have "fst (retrieve_context default_config ?env basel_question (TOP_K default_config) initial_world)
      = Inr [basel_chunk]"
    by (simp add: retrieve_context_def post_and_decode_def scripted_env_def ok_response_def)
  then have rc: "retrieve_context default_config ?env basel_question (TOP_K default_config) initial_world
      = (Inr [basel_chunk], ?w1)"
    by (simp add: prod_eq_iff)
  have b: "build_context_string [basel_chunk] = Inr ?ctx"
    by (simp add: build_context_string_def basel_chunk_def str_join_def)
  have x: "extract_sources ?env [basel_chunk] = Inr [JStr ''basel_iii.pdf'']"
    by (simp add: extract_sources_def basel_chunk_def chunk_name_def set_add_def)
  from generation_error_caught_by_orchestrator [OF l rc b x] l show ?thesis
    by simp
qed

subsection \<open>Successful runs\<close>

text \<open>
  Claim C10. If retrieval succeeds with an empty chunk list, the context is the empty
  string, a completion request built from that empty context is still sent, and the
  result has the empty list (not \<^verbatim>\<open>None\<close>) as its first element and no sources;
  when generation returns an answer, the result is \<^verbatim>\<open>([], answer, [])\<close>.
\<close>

theorem empty_retrieval_is_success:
  assumes "retrieve_context cfg env question (TOP_K cfg) w = (Inr [], w1)"
  shows "build_context_string [] = Inr [] \<and>
         llm_log (snd (get_compliance_answer cfg env question w)) =
           llm_log w1 @ [chat_request_for question []] \<and>
         (\<exists>answer. fst (get_compliance_answer cfg env question w) = Inr (Some [], answer, [])) \<and>
         (\<forall>answer w2. generate_compliance_response env question [] w1 = (Inr answer, w2) \<longrightarrow>
            get_compliance_answer cfg env question w = (Inr (Some [], answer, []), w2))"
proof -
  have b: "build_context_string [] = Inr []"
    by (simp add: build_context_string_def str_join_def)
  have x: "extract_sources env [] = Inr []"
    by (simp add: extract_sources_def)
  obtain r w2 where g: "generate_compliance_response env question [] w1 = (r, w2)"
    by (cases "generate_compliance_response env question [] w1")
  have l: "llm_log w2 = llm_log w1 @ [chat_request_for question []]"
    using generate_world [of env question "[]" w1] g by simp
  show ?thesis
  proof (cases r)
    case (Inl e)
    with g have "generate_compliance_response env question [] w1 = (Inl e, w2)" by simp
    from answer_generation_raises [OF assms b x this] l g Inl b show ?thesis
      by (simp add: log_error_def)
  next
    case (Inr answer)
    with g have "generate_compliance_response env question [] w1 = (Inr answer, w2)" by simp
    from answer_generation_returns [OF assms b x this] l g Inr b show ?thesis
      by simp
  qed
qed

theorem empty_retrieval_is_success_witness:
  "fst (retrieve_context default_config
       (scripted_env (ok_response (JList [])) (ok_completion ''The context is insufficient.''))
       basel_question (TOP_K default_config) initial_world) = Inr [] \<and>
   fst (get_compliance_answer default_config
       (scripted_env (ok_response (JList [])) (ok_completion ''The context is insufficient.''))
       basel_question initial_world) =
     Inr (Some [], ''The context is insufficient.'', []) \<and>
   llm_log (snd (get_compliance_answer default_config
       (scripted_env (ok_response (JList [])) (ok_completion ''The context is insufficient.''))
       basel_question initial_world)) = [chat_request_for basel_question []]"
proof -
  let ?env = "scripted_env (ok_response (JList [])) (ok_completion ''The context is insufficient.'')"
  let ?w1 = "snd (retrieve_context default_config ?env basel_question (TOP_K default_config) initial_world)"
  have f: "fst (retrieve_context default_config ?env basel_question (TOP_K default_config) initial_world)
      = Inr []"
    by (simp add: retrieve_context_def post_and_decode_def scripted_env_def ok_response_def)
  then have rc: "retrieve_context default_config ?env basel_question (TOP_K default_config) initial_world
      = (Inr [], ?w1)"
    by (simp add: prod_eq_iff)
  have w1: "llm_log ?w1 = []"
    by (simp add: retrieve_context_world initial_world_def)
  have "fst (generate_compliance_response ?env basel_question [] ?w1) =
      Inr ''The context is insufficient.''"
    by (simp add: generate_compliance_response_def scripted_env_def ok_completion_def Let_def)
  then have g: "generate_compliance_response ?env basel_question [] ?w1 =
      (Inr ''The context is insufficient.'', snd (generate_compliance_response ?env basel_question [] ?w1))"
    by (simp add: prod_eq_iff)
  from empty_retrieval_is_success [OF rc] g f w1 show ?thesis
    by (simp add: generate_world)
qed

text \<open>
  Claim C8. The end-to-end scenario: if retrieval returns exactly the one-chunk list
  holding the Basel III chunk and generation returns a fixed string, the result is
  that list, the fixed string, and \<^verbatim>\<open>["basel_iii.pdf"]\<close>.
\<close>

theorem basel_scenario:
  assumes "retrieve_context cfg env question (TOP_K cfg) w = (Inr [basel_chunk], w1)"
    and "generate_compliance_response env question
           ''Banks must maintain a minimum CET1 ratio of 4.5%.'' w1 = (Inr fixed, w2)"
  shows "get_compliance_answer cfg env question w =
           (Inr (Some [basel_chunk], fixed, [JStr ''basel_iii.pdf'']), w2)"
proof -
  have b: "build_context_string [basel_chunk] = Inr ''Banks must maintain a minimum CET1 ratio of 4.5%.''"
    by (simp add: build_context_string_def basel_chunk_def str_join_def)
  have x: "extract_sources env [basel_chunk] = Inr [JStr ''basel_iii.pdf'']"
    by (simp add: extract_sources_def basel_chunk_def chunk_name_def set_add_def)
  from answer_generation_returns [OF assms(1) b x assms(2)] show ?thesis .
qed

theorem basel_scenario_witness:
  "fst (retrieve_context default_config
       (scripted_env (ok_response (JList [basel_chunk])) (ok_completion ''The minimum CET1 ratio is **4.5%**.''))
       basel_question (TOP_K default_config) initial_world) = Inr [basel_chunk] \<and>
   fst (get_compliance_answer default_config
       (scripted_env (ok_response (JList [basel_chunk])) (ok_completion ''The minimum CET1 ratio is **4.5%**.''))
       basel_question initial_world) =
     Inr (Some [basel_chunk], ''The minimum CET1 ratio is **4.5%**.'', [JStr ''basel_iii.pdf''])"
proof -
  let ?env = "scripted_env (ok_response (JList [basel_chunk])) (ok_completion ''The minimum CET1 ratio is **4.5%**.'')"
  let ?w1 = "snd (retrieve_context default_config ?env basel_question (TOP_K default_config) initial_world)"
  let ?ctx = "''Banks must maintain a minimum CET1 ratio of 4.5%.''"
  have f: "fst (retrieve_context default_config ?env basel_question (TOP_K default_config) initial_world)
      = Inr [basel_chunk]"
    by (simp add: retrieve_context_def post_and_decode_def scripted_env_def ok_response_def)
  then have rc: "retrieve_context default_config ?env basel_question (TOP_K default_config) initial_world
      = (Inr [basel_chunk], ?w1)"
    by (simp add: prod_eq_iff)
  have "fst (generate_compliance_response ?env basel_question ?ctx ?w1) =
      Inr ''The minimum CET1 ratio is **4.5%**.''"
    by (simp add: generate_compliance_response_def scripted_env_def ok_completion_def Let_def)
  then have g: "generate_compliance_response ?env basel_question ?ctx ?w1 =
      (Inr ''The minimum CET1 ratio is **4.5%**.'', snd (generate_compliance_response ?env basel_question ?ctx ?w1))"
    by (simp add: prod_eq_iff)
  from basel_scenario [OF rc g] f show ?thesis
    by simp
qed

subsection \<open>Context assembly\<close>

lemma subscript_all_values:
  "map (\<lambda>chunk. getitem chunk key) chunks = map Inr vs \<Longrightarrow> subscript_all chunks key = Inr vs"
proof (induction chunks arbitrary: vs)
  case Nil
  then show ?case by simp
next
  case (Cons chunk chunks)
  then obtain v vs' where vs: "vs = v # vs'" by (cases vs) auto
  with Cons.prems have "getitem chunk key = Inr v"
    and "map (\<lambda>chunk. getitem chunk key) chunks = map Inr vs'" by simp_all
  with Cons.IH [of vs'] vs show ?case by simp
qed

lemma str_items_strings: "str_items (map JStr texts) = Inr texts"
  by (induction texts) simp_all

lemma join_strings_separators:
  "texts \<noteq> [] \<Longrightarrow>
   join_strings sep texts = concat (map (\<lambda>t. t @ sep) (butlast texts)) @ last texts"
  by (induction sep texts rule: join_strings.induct) simp_all

lemma length_join_strings:
  "texts \<noteq> [] \<Longrightarrow>
   length (join_strings sep texts) = sum_list (map length texts) + (length texts - 1) * length sep"
  by (induction sep texts rule: join_strings.induct) simp_all

text \<open>
  Claim C4. \<^verbatim>\<open>build_context_string\<close> returns the empty string for the empty
  sequence; for a non-empty sequence of \<open>n\<close> chunks with the texts \<open>texts\<close> it returns
  those texts in input order, each of the first \<open>n - 1\<close> followed by one blank-line
  separator and the last one by none, so that exactly \<open>n - 1\<close> separators (of two
  characters each) are inserted.
\<close>

theorem build_context_string_join:
  "build_context_string [] = Inr [] \<and>
   (chunks \<noteq> [] \<and>
    map (\<lambda>chunk. getitem chunk ''text'') chunks = map (\<lambda>t. Inr (JStr t)) texts \<longrightarrow>
      build_context_string chunks =
        Inr (concat (map (\<lambda>t. t @ ''\<newline>\<newline>'') (butlast texts)) @ last texts) \<and>
      length (butlast texts) = length chunks - 1 \<and>
      (\<forall>context. build_context_string chunks = Inr context \<longrightarrow>
         length context = sum_list (map length texts) + 2 * (length chunks - 1)))"
proof (intro conjI impI)
  show "build_context_string [] = Inr []"
    by (simp add: build_context_string_def str_join_def)
next
  assume a: "chunks \<noteq> [] \<and>
    map (\<lambda>chunk. getitem chunk ''text'') chunks = map (\<lambda>t. Inr (JStr t)) texts"
  then have len: "length texts = length chunks"
    by (metis length_map)
  with a have ne: "texts \<noteq> []" by auto
  from a have "map (\<lambda>chunk. getitem chunk ''text'') chunks = map Inr (map JStr texts)"
    by simp
  then have "subscript_all chunks ''text'' = Inr (map JStr texts)"
    by (rule subscript_all_values)
  then have b: "build_context_string chunks = Inr (join_strings ''\<newline>\<newline>'' texts)"
    by (simp add: build_context_string_def str_join_def str_items_strings)
  with join_strings_separators [OF ne]
  show "build_context_string chunks =
        Inr (concat (map (\<lambda>t. t @ ''\<newline>\<newline>'') (butlast texts)) @ last texts)"
    by simp
  show "length (butlast texts) = length chunks - 1"
    using len by simp
  show "\<forall>context. build_context_string chunks = Inr context \<longrightarrow>
         length context = sum_list (map length texts) + 2 * (length chunks - 1)"
    using b length_join_strings [OF ne, of "''\<newline>\<newline>''"] len by simp
qed

theorem build_context_string_join_witness:
  "[basel_chunk, JDict [(''text'', JStr ''Tier 1 capital must be at least 6%.'')]] \<noteq> [] \<and>
   map (\<lambda>chunk. getitem chunk ''text'')
       [basel_chunk, JDict [(''text'', JStr ''Tier 1 capital must be at least 6%.'')]] =
     map (\<lambda>t. Inr (JStr t))
       [''Banks must maintain a minimum CET1 ratio of 4.5%.'', ''Tier 1 capital must be at least 6%.''] \<and>
   build_context_string
       [basel_chunk, JDict [(''text'', JStr ''Tier 1 capital must be at least 6%.'')]] =
     Inr ''Banks must maintain a minimum CET1 ratio of 4.5%.\<newline>\<newline>Tier 1 capital must be at least 6%.''"
proof -
  let ?chunks = "[basel_chunk, JDict [(''text'', JStr ''Tier 1 capital must be at least 6%.'')]]"
  let ?texts = "[''Banks must maintain a minimum CET1 ratio of 4.5%.'', ''Tier 1 capital must be at least 6%.'']"
  have h: "?chunks \<noteq> [] \<and>
     map (\<lambda>chunk. getitem chunk ''text'') ?chunks = map (\<lambda>t. Inr (JStr t)) ?texts"
    by (simp add: basel_chunk_def)
  from build_context_string_join [of ?chunks ?texts] h show ?thesis
    by simp
qed

lemma set_add_string:
  "set_add (map JStr acc) (JStr n) = Inr (map JStr (if n \<in> set acc then acc else acc @ [n]))"
  by (auto simp add: set_add_def image_iff)

lemma source_set_strings:
  "map chunk_name chunks = map (\<lambda>n. Inr (JStr n)) names \<Longrightarrow> distinct acc \<Longrightarrow>
   \<exists>ys. source_set chunks (map JStr acc) = Inr (map JStr ys) \<and> distinct ys \<and>
        set ys = set acc \<union> set names"
proof (induction chunks arbitrary: names acc)
  case Nil
  then show ?case by auto
next
  case (Cons chunk chunks)
  then obtain n names' where names: "names = n # names'" by (cases names) auto
  with Cons.prems have c: "chunk_name chunk = Inr (JStr n)"
    and r: "map chunk_name chunks = map (\<lambda>n. Inr (JStr n)) names'" by simp_all
  let ?acc = "if n \<in> set acc then acc else acc @ [n]"
  have "distinct ?acc" using Cons.prems(2) by simp
  from Cons.IH [OF r this] obtain ys where
    ys: "source_set chunks (map JStr ?acc) = Inr (map JStr ys)" "distinct ys"
      "set ys = set ?acc \<union> set names'" by blast
  have "source_set (chunk # chunks) (map JStr acc) = Inr (map JStr ys)"
    using c ys(1) by (simp add: set_add_string)
  moreover have "set ys = set acc \<union> set names"
    using ys(3) names by auto
  ultimately show ?case using ys(2) by blast
qed



subsection \<open>The orchestrator boundary\<close>

lemma chunk_shaped_texts:
  "list_all chunk_shaped chunks \<Longrightarrow>
   \<exists>texts. map (\<lambda>chunk. getitem chunk ''text'') chunks = map (\<lambda>t. Inr (JStr t)) texts"
proof (induction chunks)
  case Nil
  then show ?case by simp
next
  case (Cons chunk chunks)
  then obtain texts where
    "map (\<lambda>chunk. getitem chunk ''text'') chunks = map (\<lambda>t. Inr (JStr t)) texts" by auto
  moreover from Cons.prems obtain t where "getitem chunk ''text'' = Inr (JStr t)"
    by (auto simp add: chunk_shaped_def split: sum.splits json.splits)
  ultimately have "map (\<lambda>chunk. getitem chunk ''text'') (chunk # chunks) =
      map (\<lambda>t. Inr (JStr t)) (t # texts)" by simp
  then show ?case by blast
qed

lemma chunk_shaped_names:
  "list_all chunk_shaped chunks \<Longrightarrow>
   \<exists>names. map chunk_name chunks = map (\<lambda>n. Inr (JStr n)) names"
proof (induction chunks)
  case Nil
  then show ?case by simp
next
  case (Cons chunk chunks)
  then obtain names where "map chunk_name chunks = map (\<lambda>n. Inr (JStr n)) names" by auto
  moreover from Cons.prems obtain n where "chunk_name chunk = Inr (JStr n)"
    by (auto simp add: chunk_shaped_def split: sum.splits json.splits)
  ultimately have "map chunk_name (chunk # chunks) = map (\<lambda>n. Inr (JStr n)) (n # names)"
    by simp
  then show ?case by blast
qed

lemma chunk_shaped_context:
  assumes "list_all chunk_shaped chunks"
  shows "\<exists>context. build_context_string chunks = Inr context"
proof -
  from chunk_shaped_texts [OF assms] obtain texts where
    "map (\<lambda>chunk. getitem chunk ''text'') chunks = map (\<lambda>t. Inr (JStr t)) texts" by blast
  then have "map (\<lambda>chunk. getitem chunk ''text'') chunks = map Inr (map JStr texts)"
    by simp
  then have "subscript_all chunks ''text'' = Inr (map JStr texts)"
    by (rule subscript_all_values)
  then show ?thesis
    by (simp add: build_context_string_def str_join_def str_items_strings)
qed

lemma chunk_shaped_sources:
  assumes "list_all chunk_shaped chunks"
  shows "\<exists>sources. extract_sources env chunks = Inr sources"
proof -
  from chunk_shaped_names [OF assms] obtain names where
    "map chunk_name chunks = map (\<lambda>n. Inr (JStr n)) names" by auto
  from source_set_strings [OF this, of "[]"] show ?thesis
    by (auto simp add: extract_sources_def)
qed

text \<open>
  Claim C1, as stated, fails. A retrieved list whose element has no \<^verbatim>\<open>text\<close> key
  makes \<^verbatim>\<open>build_context_string\<close> raise \<^verbatim>\<open>KeyError\<close> outside both \<^verbatim>\<open>try\<close>
  blocks; and a request failure that is none of \<^verbatim>\<open>ConnectionError\<close>,
  \<^verbatim>\<open>Timeout\<close>, \<^verbatim>\<open>HTTPError\<close> (too many redirects, say) is caught by no clause.
  Either exception reaches the caller of \<^verbatim>\<open>get_compliance_answer\<close>.
\<close>

theorem uncaught_exception_counterexample:
  "fst (get_compliance_answer default_config
       (scripted_env (ok_response (JList [JDict [(''dist'', JFloat (1 / 10))]])) (ok_completion ''unused''))
       basel_question initial_world) = 
     Inl (Exn KeyError ([CHR 0x27] @ ''text'' @ [CHR 0x27])) \<and>
   fst (get_compliance_answer default_config
       (scripted_env (Inl (Exn Requests_RequestException ''Exceeded 30 redirects.'')) (ok_completion ''unused''))
       basel_question initial_world) = Inl (Exn Requests_RequestException ''Exceeded 30 redirects.'')"
  by (simp add: get_compliance_answer_def retrieve_context_def post_and_decode_def
      scripted_env_def ok_response_def build_context_string_def isinstance_Exn)

text \<open>
  Claim C1, amended. For every question, \<^verbatim>\<open>get_compliance_answer\<close> returns a triple
  and raises nothing, whatever the completion call returns or raises, provided the
  retrieval request ends in one of these ways: it raises an exception that an except
  clause catches (\<^verbatim>\<open>requests\<close>' \<^verbatim>\<open>ConnectionError\<close>, \<^verbatim>\<open>Timeout\<close> or
  \<^verbatim>\<open>HTTPError\<close>, or a \<^verbatim>\<open>ValueError\<close> or builtin \<^verbatim>\<open>ConnectionError\<close>), or it
  yields a payload that is no list, or it yields a list of chunks that each hold a string
  under \<^verbatim>\<open>text\<close> and under \<^verbatim>\<open>metadata.name\<close>.
\<close>

theorem orderly_retrieval_returns:
  assumes "orderly_retrieval (post_and_decode env (retrieve_request cfg question (TOP_K cfg)))"
  shows "\<exists>chunks answer sources.
           fst (get_compliance_answer cfg env question w) = Inr (chunks, answer, sources)"
proof -
  let ?req = "retrieve_request cfg question (TOP_K cfg)"
  obtain r w1 where rc: "retrieve_context cfg env question (TOP_K cfg) w = (r, w1)"
    by (cases "retrieve_context cfg env question (TOP_K cfg) w")
  show ?thesis
  proof (cases r)
    case (Inl e)
    have "isinstance e Builtin_ConnectionError \<or> isinstance e ValueError"
    proof (cases "post_and_decode env ?req")
      case pd: (Inl e')
      consider (a) "isinstance e' Requests_ConnectionError"
        | (b) "\<not> isinstance e' Requests_ConnectionError" "isinstance e' Requests_Timeout"
        | (c) "\<not> isinstance e' Requests_ConnectionError" "\<not> isinstance e' Requests_Timeout"
              "isinstance e' Requests_HTTPError"
        | (d) "\<not> isinstance e' Requests_ConnectionError" "\<not> isinstance e' Requests_Timeout"
              "\<not> isinstance e' Requests_HTTPError"
              "isinstance e' Builtin_ConnectionError \<or> isinstance e' ValueError"
        using assms pd by auto
      then show ?thesis
      proof cases
        case a
        from retrieve_context_unreachable [OF pd a, of w] rc Inl show ?thesis
          by (auto simp add: isinstance_Exn)
      next
        case b
        from retrieve_context_timeout [OF pd b, of w] rc Inl show ?thesis
          by (auto simp add: isinstance_Exn)
      next
        case c
        from retrieve_context_status [OF pd c, of w] rc Inl show ?thesis
          by (auto simp add: isinstance_Exn)
      next
        case d
        from retrieve_context_propagates [OF pd d(1) d(2) d(3), of w] rc Inl d(4) show ?thesis
          by auto
      qed
    next
      case pd: (Inr v)
      show ?thesis
      proof (cases "\<exists>chunks. v = JList chunks")
        case True
        then obtain chunks where "v = JList chunks" by blast
        with retrieve_context_list [of env cfg question "TOP_K cfg" chunks w] pd rc Inl
        show ?thesis by simp
      next
        case False
        then have "\<And>chunks. v \<noteq> JList chunks" by blast
        from retrieve_context_not_list [OF pd this, of w] rc Inl show ?thesis
          by (auto simp add: isinstance_Exn)
      qed
    qed
    with answer_retrieval_caught [of cfg env question w e w1] rc Inl show ?thesis
      by simp
  next
    case (Inr chunks)
    have pd: "post_and_decode env ?req = Inr (JList chunks)"
    proof (cases "post_and_decode env ?req")
      case pd: (Inl e')
      then have "\<exists>e. fst (retrieve_context cfg env question (TOP_K cfg) w) = Inl e"
        by (simp add: retrieve_context_def Let_def)
      with rc Inr show ?thesis by simp
    next
      case pd: (Inr v)
      show ?thesis
      proof (cases "\<exists>chunks. v = JList chunks")
        case True
        then obtain chunks' where v: "v = JList chunks'" by blast
        with retrieve_context_list [of env cfg question "TOP_K cfg" chunks' w] pd rc Inr
        show ?thesis by simp
      next
        case False
        then have "\<And>chunks. v \<noteq> JList chunks" by blast
        from retrieve_context_not_list [OF pd this, of w] rc Inr show ?thesis by simp
      qed
    qed
    with assms have shaped: "list_all chunk_shaped chunks" by simp
    from chunk_shaped_context [OF shaped] obtain ctx where
      b: "build_context_string chunks = Inr ctx" by blast
    from chunk_shaped_sources [OF shaped] obtain sources where
      x: "extract_sources env chunks = Inr sources" by blast
    from rc Inr have rc': "retrieve_context cfg env question (TOP_K cfg) w = (Inr chunks, w1)"
      by simp
    obtain g w2 where g: "generate_compliance_response env question ctx w1 = (g, w2)"
      by (cases "generate_compliance_response env question ctx w1")
    show ?thesis
    proof (cases g)
      case (Inl e)
      with g have "generate_compliance_response env question ctx w1 = (Inl e, w2)" by simp
      from answer_generation_raises [OF rc' b x this] show ?thesis by simp
    next
      case (Inr answer)
      with g have "generate_compliance_response env question ctx w1 = (Inr answer, w2)" by simp
      from answer_generation_returns [OF rc' b x this] show ?thesis by simp
    qed
  qed
qed

theorem orderly_retrieval_returns_witness:
  "orderly_retrieval (post_and_decode
       (scripted_env (ok_response (JList [basel_chunk])) (Inl (Exn Other_Exception ''boom'')))
       (retrieve_request default_config basel_question (TOP_K default_config))) \<and>
   fst (get_compliance_answer default_config
       (scripted_env (ok_response (JList [basel_chunk])) (Inl (Exn Other_Exception ''boom'')))
       basel_question initial_world) =
     Inr (Some [basel_chunk], ''LLM error: boom'', [JStr ''basel_iii.pdf''])"
proof -
  let ?env = "scripted_env (ok_response (JList [basel_chunk])) (Inl (Exn Other_Exception ''boom''))"
  have h: "orderly_retrieval (post_and_decode ?env
       (retrieve_request default_config basel_question (TOP_K default_config)))"
    by (simp add: post_and_decode_def scripted_env_def ok_response_def chunk_shaped_def
        chunk_name_def basel_chunk_def)
  have v: "fst (get_compliance_answer default_config ?env basel_question initial_world) =
     Inr (Some [basel_chunk], ''LLM error: boom'', [JStr ''basel_iii.pdf''])"
    by (simp add: get_compliance_answer_def retrieve_context_def post_and_decode_def
        scripted_env_def ok_response_def build_context_string_def str_join_def
        extract_sources_def chunk_name_def set_add_def basel_chunk_def
        generate_compliance_response_def Let_def)
  from orderly_retrieval_returns [OF h, of initial_world] h v show ?thesis
    by simp
qed

end
